theory Spec2Isabelle
  imports Main "HOL-Library.AList" "HOL-Library.Sublist"
begin

section \<open>Python values and dictionaries\<close>

text \<open>
  The recipes of \<^verbatim>\<open>quacc/recipes/vasp\<close> build keyword dictionaries whose values are
  integers, booleans, floating-point literals, strings, \<^verbatim>\<open>None\<close> and (for
  \<^verbatim>\<open>auto_kpts\<close>) a nested dictionary; the calculator's \<^verbatim>\<open>kpts\<close> attribute, a list or
  a tuple of numbers or \<^verbatim>\<open>None\<close>, is compared with the list \<^verbatim>\<open>[1, 1, 1]\<close>. A
  floating-point literal is only stored, handed on and compared: \<open>PyFloat m e\<close> stands
  for the decimal literal \<open>m * 10 ^ e\<close> as it is written (\<^verbatim>\<open>0.05\<close> is \<open>PyFloat 5 (- 2)\<close>).
\<close>

datatype pyval =
    PyNone
  | PyBool bool
  | PyInt int
  | PyFloat int int
  | PyStr string
  | PyList "pyval list"
  | PyTuple "pyval list"
  | PyDict "(string \<times> pyval) list"

text \<open>
  A Python \<^verbatim>\<open>dict\<close> keeps its keys in insertion order, so it is an association list.
  \<^verbatim>\<open>d[k] = v\<close> is \<^const>\<open>AList.update\<close> (the value is replaced in place when the key is
  present and the pair is appended otherwise), lookup is \<^const>\<open>map_of\<close>.
\<close>

type_synonym dict = "(string \<times> pyval) list"

definition keys :: "dict \<Rightarrow> string list" where
  "keys d = map fst d"

text \<open>\<^verbatim>\<open>x or {}\<close> for an optional dictionary: \<^verbatim>\<open>None\<close> and the empty dictionary are
  falsy and give the empty dictionary, any other dictionary is kept.\<close>

definition or_empty :: "dict option \<Rightarrow> dict" where
  "or_empty swaps = (case swaps of None \<Rightarrow> [] | Some d \<Rightarrow> (if d = [] then [] else d))"

section \<open>The parameter merge engine\<close>

text \<open>
  Modelled from the spec: \<^verbatim>\<open>quacc.util.basics.merge_dicts\<close> is imported by both recipe
  modules but its module is not among the sources. The specification (section 4.1) gives
  the contract \<^verbatim>\<open>merge(layer_1, ..., layer_n, remove_none)\<close>: keys are merged with later
  layers strictly overriding earlier ones; the key order of the result follows
  first-occurrence order across layers; when \<^verbatim>\<open>remove_none\<close> is true, any key whose
  final resolved value is the explicit-absence marker \<^verbatim>\<open>None\<close> is deleted from the
  result entirely; zero override layers and empty mappings are valid inputs.
  The first layer (the defaults) is the base; each later layer is laid over it entry by
  entry.
\<close>

definition overlay :: "dict \<Rightarrow> dict \<Rightarrow> dict" where
  "overlay base layer = foldl (\<lambda>acc (k, v). AList.update k v acc) base layer"

definition is_none :: "pyval \<Rightarrow> bool" where
  "is_none v = (case v of PyNone \<Rightarrow> True | _ \<Rightarrow> False)"

definition drop_none :: "dict \<Rightarrow> dict" where
  "drop_none d = filter (\<lambda>(k, v). \<not> is_none v) d"

definition merge_dicts :: "dict \<Rightarrow> dict list \<Rightarrow> bool \<Rightarrow> dict" where
  "merge_dicts defaults layers remove_none =
     (let merged = foldl overlay defaults layers
      in if remove_none then drop_none merged else merged)"

section \<open>Recipe descriptors and their resolved flags\<close>

text \<open>The dataclasses of \<^verbatim>\<open>core.py\<close> and \<^verbatim>\<open>qmof.py\<close>: a name, a preset
  (\<^verbatim>\<open>None\<close> by default in \<^verbatim>\<open>core.py\<close>), the volume switch and the optional override
  dictionaries.\<close>

record StaticJob =
  sj_name :: string
  sj_preset :: "string option"
  sj_swaps :: "dict option"

record RelaxJob =
  rj_name :: string
  rj_preset :: "string option"
  rj_volume_relax :: bool
  rj_swaps :: "dict option"

record DoubleRelaxJob =
  dj_name :: string
  dj_preset :: "string option"
  dj_volume_relax :: bool
  dj_swaps1 :: "dict option"
  dj_swaps2 :: "dict option"

record QMOFMaker =
  qm_name :: string
  qm_preset :: "string option"
  qm_volume_relax :: bool
  qm_swaps :: "dict option"

text \<open>The \<^verbatim>\<open>defaults\<close> literals, in source order.\<close>

definition StaticJob_defaults :: dict where
  "StaticJob_defaults =
     [(''ismear'', PyInt (- 5)),
      (''isym'', PyInt 2),
      (''laechg'', PyBool True),
      (''lcharg'', PyBool True),
      (''lwave'', PyBool True),
      (''nedos'', PyInt 5001),
      (''nsw'', PyInt 0),
      (''sigma'', PyFloat 5 (- 2))]"

definition RelaxJob_defaults :: "bool \<Rightarrow> dict" where
  "RelaxJob_defaults volume_relax =
     [(''ediffg'', PyFloat (- 2) (- 2)),
      (''isif'', PyInt (if volume_relax then 3 else 2)),
      (''ibrion'', PyInt 2),
      (''ismear'', PyInt 0),
      (''isym'', PyInt 0),
      (''lcharg'', PyBool False),
      (''lwave'', PyBool False),
      (''nsw'', PyInt 200),
      (''sigma'', PyFloat 5 (- 2))]"

definition DoubleRelaxJob_defaults :: "bool \<Rightarrow> dict" where
  "DoubleRelaxJob_defaults volume_relax =
     [(''ediffg'', PyFloat (- 2) (- 2)),
      (''isif'', PyInt (if volume_relax then 3 else 2)),
      (''ibrion'', PyInt 2),
      (''ismear'', PyInt 0),
      (''isym'', PyInt 0),
      (''lcharg'', PyBool False),
      (''lwave'', PyBool True),
      (''nsw'', PyInt 200),
      (''sigma'', PyFloat 5 (- 2))]"

definition prerelax_defaults :: dict where
  "prerelax_defaults =
     [(''auto_kpts'', PyDict [(''grid_density'', PyInt 100)]),
      (''ediff'', PyFloat 1 (- 4)),
      (''encut'', PyNone),
      (''lcharg'', PyBool False),
      (''lreal'', PyStr ''auto''),
      (''lwave'', PyBool True),
      (''nelm'', PyInt 225),
      (''nsw'', PyInt 0)]"

definition loose_relax_positions_defaults :: dict where
  "loose_relax_positions_defaults =
     [(''auto_kpts'', PyDict [(''grid_density'', PyInt 100)]),
      (''ediff'', PyFloat 1 (- 4)),
      (''ediffg'', PyFloat (- 5) (- 2)),
      (''encut'', PyNone),
      (''isif'', PyInt 2),
      (''lcharg'', PyBool False),
      (''lreal'', PyStr ''auto''),
      (''lwave'', PyBool True),
      (''nsw'', PyInt 250)]"

definition loose_relax_volume_defaults :: dict where
  "loose_relax_volume_defaults =
     [(''auto_kpts'', PyDict [(''grid_density'', PyInt 100)]),
      (''isif'', PyInt 3),
      (''lcharg'', PyBool False),
      (''lreal'', PyStr ''auto''),
      (''lwave'', PyBool True),
      (''nsw'', PyInt 500)]"

definition double_relax_defaults :: "bool \<Rightarrow> dict" where
  "double_relax_defaults volume_relax =
     [(''isif'', PyInt (if volume_relax then 3 else 2)),
      (''lcharg'', PyBool False),
      (''lreal'', PyStr ''auto''),
      (''lwave'', PyBool True),
      (''nsw'', PyInt (if volume_relax then 500 else 250))]"

text \<open>The \<^verbatim>\<open>flags\<close> each recipe resolves:
  \<^verbatim>\<open>flags = merge_dicts(defaults, swaps, remove_none=True)\<close> after
  \<^verbatim>\<open>swaps = self.swaps or {}\<close>.\<close>

definition StaticJob_flags :: "StaticJob \<Rightarrow> dict" where
  "StaticJob_flags job = merge_dicts StaticJob_defaults [or_empty (sj_swaps job)] True"

definition RelaxJob_flags :: "RelaxJob \<Rightarrow> dict" where
  "RelaxJob_flags job =
     merge_dicts (RelaxJob_defaults (rj_volume_relax job)) [or_empty (rj_swaps job)] True"

definition DoubleRelaxJob_flags1 :: "DoubleRelaxJob \<Rightarrow> dict" where
  "DoubleRelaxJob_flags1 job =
     merge_dicts (DoubleRelaxJob_defaults (dj_volume_relax job)) [or_empty (dj_swaps1 job)] True"

definition DoubleRelaxJob_flags2 :: "DoubleRelaxJob \<Rightarrow> dict" where
  "DoubleRelaxJob_flags2 job =
     merge_dicts (DoubleRelaxJob_defaults (dj_volume_relax job)) [or_empty (dj_swaps2 job)] True"

definition prerelax_flags :: "dict option \<Rightarrow> dict" where
  "prerelax_flags swaps = merge_dicts prerelax_defaults [or_empty swaps] True"

definition loose_relax_positions_flags :: "dict option \<Rightarrow> dict" where
  "loose_relax_positions_flags swaps =
     merge_dicts loose_relax_positions_defaults [or_empty swaps] True"

definition loose_relax_volume_flags :: "dict option \<Rightarrow> dict" where
  "loose_relax_volume_flags swaps =
     merge_dicts loose_relax_volume_defaults [or_empty swaps] True"

text \<open>\<^verbatim>\<open>double_relax\<close> resolves two flag sets; between them it runs
  \<^verbatim>\<open>del defaults["lreal"]\<close> on its own literal, where the key is always present.\<close>

definition double_relax_flags1 :: "dict option \<Rightarrow> bool \<Rightarrow> dict" where
  "double_relax_flags1 swaps volume_relax =
     merge_dicts (double_relax_defaults volume_relax) [or_empty swaps] True"

definition double_relax_flags2 :: "dict option \<Rightarrow> bool \<Rightarrow> dict" where
  "double_relax_flags2 swaps volume_relax =
     merge_dicts (AList.delete ''lreal'' (double_relax_defaults volume_relax)) [or_empty swaps] True"

section \<open>Structures, calculators and the external collaborators\<close>

text \<open>
  An \<^verbatim>\<open>Atoms\<close> object carries positions and cell (opaque here: the type \<open>'g\<close>) and an
  attached calculator or \<^verbatim>\<open>None\<close>. Of the calculator the recipes read \<^verbatim>\<open>kpts\<close> and
  call \<^verbatim>\<open>set(istart=0)\<close>; following section 6 of the specification it is a flat mapping
  of solver directives with set/get, next to the resolved sampling grid.
\<close>

record calculator =
  kpts :: pyval
  directives :: dict

record 'g atoms =
  geometry :: 'g
  calc :: "calculator option"

definition calc_set :: "string \<Rightarrow> pyval \<Rightarrow> calculator \<Rightarrow> calculator" where
  "calc_set k v c = c\<lparr>directives := AList.update k v (directives c)\<rparr>"

text \<open>The dictionary \<^verbatim>\<open>summarize_run\<close> returns; the recipes read only its entry
  \<^verbatim>\<open>"atoms"\<close>, which is absent when \<open>summary_atoms\<close> is \<open>None\<close>.\<close>

record 'g summary =
  summary_atoms :: "'g atoms option"
  summary_fields :: dict

text \<open>The keyword arguments \<^verbatim>\<open>run_calc\<close> passes to \<^verbatim>\<open>monty.tempfile.ScratchDir\<close>.\<close>

record scratch_args =
  rootpath :: string
  create_symbolic_link :: bool
  copy_from_current_on_enter :: bool
  copy_to_current_on_exit :: bool
  gzip_on_exit :: bool
  remove_symlink_on_exit :: bool
  delete_removed_files :: bool

text \<open>
  Exceptions. \<open>ValueError_no_calculator\<close> is the
  \<^verbatim>\<open>ValueError("Atoms object must have attached calculator.")\<close> of \<^verbatim>\<open>run_calc\<close>;
  \<open>AttributeError\<close> is \<^verbatim>\<open>atoms.calc.kpts\<close> on a structure without calculator;
  \<open>KeyError\<close> is a missing dictionary key; \<open>External msg\<close> is whatever an external
  collaborator raises.
\<close>

datatype error =
    ValueError_no_calculator
  | AttributeError
  | KeyError
  | External string

text \<open>
  What lies outside the three source files is a parameter of the model. Each
  collaborator takes the state of the outside world (file system, solver, settings; the
  opaque type \<open>'w\<close>), returns the new one, and either raises (\<open>Inl\<close>) or returns:
  \<^item> \<open>SmartVasp\<close>: \<^verbatim>\<open>quacc.calculators.vasp.SmartVasp(atoms, preset=..., **flags)\<close>, which
    returns the structure with a calculator attached;
  \<^item> \<open>get_potential_energy\<close>: \<^verbatim>\<open>atoms.get_potential_energy()\<close>, the solver trigger; it
    mutates the structure it is called on, so it returns that structure's new value;
  \<^item> \<open>BFGSLineSearch_run\<close>: \<^verbatim>\<open>BFGSLineSearch(atoms, ...).run(fmax=fmax)\<close>, which mutates
    the structure likewise;
  \<^item> \<open>summarize_run\<close>: \<^verbatim>\<open>quacc.schemas.vasp.summarize_run(atoms, additional_fields=...)\<close>;
  \<^item> \<open>ScratchDir_enter\<close>, \<open>ScratchDir_exit\<close>: \<^verbatim>\<open>__enter__\<close> and \<^verbatim>\<open>__exit__\<close> of the
    context manager, the latter given the pending exception;
  \<^item> \<open>getcwd\<close>, \<open>abspath\<close>, \<open>os_name\<close>: \<^verbatim>\<open>os.getcwd()\<close>, \<^verbatim>\<open>os.path.abspath\<close>,
    \<^verbatim>\<open>os.name\<close>; \<open>SETTINGS_SCRATCH_DIR\<close>: \<^verbatim>\<open>quacc.SETTINGS.SCRATCH_DIR\<close>.
\<close>

record ('g, 'w) env =
  SmartVasp :: "'g atoms \<Rightarrow> string option \<Rightarrow> dict \<Rightarrow> 'w \<Rightarrow> (string + 'g atoms) \<times> 'w"
  get_potential_energy :: "'g atoms \<Rightarrow> 'w \<Rightarrow> (string + 'g atoms) \<times> 'w"
  BFGSLineSearch_run :: "'g atoms \<Rightarrow> pyval \<Rightarrow> 'w \<Rightarrow> (string + 'g atoms) \<times> 'w"
  summarize_run :: "'g atoms \<Rightarrow> dict \<Rightarrow> 'w \<Rightarrow> (string + 'g summary) \<times> 'w"
  ScratchDir_enter :: "scratch_args \<Rightarrow> 'w \<Rightarrow> (string + unit) \<times> 'w"
  ScratchDir_exit :: "scratch_args \<Rightarrow> error option \<Rightarrow> 'w \<Rightarrow> (string + unit) \<times> 'w"
  getcwd :: "'w \<Rightarrow> string"
  abspath :: "string \<Rightarrow> 'w \<Rightarrow> string"
  os_name :: string
  SETTINGS_SCRATCH_DIR :: "string option"

text \<open>
  Every call of a collaborator and every entry into a stage function of \<^verbatim>\<open>qmof.py\<close> is
  recorded, with the arguments and (where a later step depends on it) the outcome.
  \<open>ScratchDir_entered\<close> and \<open>ScratchDir_exited\<close> record that \<^verbatim>\<open>__enter__\<close> and
  \<^verbatim>\<open>__exit__\<close> were called, whatever they did.
\<close>

datatype 'g event =
    Entered string
  | SmartVasp_called "'g atoms" "string option" dict "string + 'g atoms"
  | ScratchDir_entered scratch_args
  | Solver_triggered "'g atoms" "string + 'g atoms"
  | ScratchDir_exited scratch_args "error option"
  | Optimizer_run "'g atoms" pyval "string + 'g atoms"
  | Summarized "'g atoms" dict "string + 'g summary"

text \<open>A computation takes the world and returns an exception or a value, the new world
  and the events it caused.\<close>

type_synonym ('a, 'g, 'w) io = "'w \<Rightarrow> (error + 'a) \<times> 'w \<times> 'g event list"

definition return_io :: "'a \<Rightarrow> ('a, 'g, 'w) io" where
  "return_io x w = (Inr x, w, [])"

definition raise_io :: "error \<Rightarrow> ('a, 'g, 'w) io" where
  "raise_io e w = (Inl e, w, [])"

definition emit :: "'g event \<Rightarrow> (unit, 'g, 'w) io" where
  "emit ev w = (Inr (), w, [ev])"

definition bind_io :: "('a, 'g, 'w) io \<Rightarrow> ('a \<Rightarrow> ('b, 'g, 'w) io) \<Rightarrow> ('b, 'g, 'w) io" where
  "bind_io m f w =
     (case m w of
        (Inl e, w1, t1) \<Rightarrow> (Inl e, w1, t1)
      | (Inr x, w1, t1) \<Rightarrow> (case f x w1 of (r, w2, t2) \<Rightarrow> (r, w2, t1 @ t2)))"

definition extern ::
  "('w \<Rightarrow> (string + 'a) \<times> 'w) \<Rightarrow> ((string + 'a) \<Rightarrow> 'g event) \<Rightarrow> ('a, 'g, 'w) io" where
  "extern f ev w =
     (case f w of
        (Inl msg, w1) \<Rightarrow> (Inl (External msg), w1, [ev (Inl msg)])
      | (Inr x, w1) \<Rightarrow> (Inr x, w1, [ev (Inr x)]))"

section \<open>The scoped execution wrapper: \<^verbatim>\<open>run_calc\<close>\<close>

text \<open>
  \<^verbatim>\<open>with ScratchDir(...): body\<close>. \<^verbatim>\<open>__enter__\<close> runs first; when it raises, neither
  the body nor \<^verbatim>\<open>__exit__\<close> runs. Otherwise the body runs and \<^verbatim>\<open>__exit__\<close> is called
  with the body's exception, if any; an exception of \<^verbatim>\<open>__exit__\<close> replaces the outcome,
  and otherwise the body's outcome stands (\<^verbatim>\<open>ScratchDir.__exit__\<close> is taken to
  return nothing, so that it suppresses no exception).
\<close>

definition pending :: "error + 'a \<Rightarrow> error option" where
  "pending r = (case r of Inl e \<Rightarrow> Some e | Inr _ \<Rightarrow> None)"

definition with_ScratchDir ::
  "('g, 'w) env \<Rightarrow> scratch_args \<Rightarrow> ('a, 'g, 'w) io \<Rightarrow> ('a, 'g, 'w) io" where
  "with_ScratchDir env args body w =
     (case ScratchDir_enter env args w of
        (Inl msg, w1) \<Rightarrow> (Inl (External msg), w1, [ScratchDir_entered args])
      | (Inr _, w1) \<Rightarrow>
          (case body w1 of (r, w2, t) \<Rightarrow>
             (case ScratchDir_exit env args (pending r) w2 of
                (Inl msg, w3) \<Rightarrow>
                  (Inl (External msg), w3,
                   [ScratchDir_entered args] @ t @ [ScratchDir_exited args (pending r)])
              | (Inr _, w3) \<Rightarrow>
                  (r, w3, [ScratchDir_entered args] @ t @ [ScratchDir_exited args (pending r)]))))"

text \<open>\<^verbatim>\<open>scratch_dir or os.getcwd()\<close>: \<^verbatim>\<open>None\<close> and the empty string are falsy.\<close>

definition scratch_root :: "('g, 'w) env \<Rightarrow> string option \<Rightarrow> 'w \<Rightarrow> string" where
  "scratch_root env scratch_dir w =
     (case scratch_dir of
        None \<Rightarrow> getcwd env w
      | Some d \<Rightarrow> (if d = [] then getcwd env w else d))"

definition run_calc_args :: "('g, 'w) env \<Rightarrow> string option \<Rightarrow> bool \<Rightarrow> bool \<Rightarrow> 'w \<Rightarrow> scratch_args" where
  "run_calc_args env scratch_dir gzip copy_from_store_dir w =
     \<lparr>rootpath = abspath env (scratch_root env scratch_dir w) w,
      create_symbolic_link = (if os_name env \<noteq> ''nt'' then True else False),
      copy_from_current_on_enter = copy_from_store_dir,
      copy_to_current_on_exit = True,
      gzip_on_exit = gzip,
      remove_symlink_on_exit = True,
      delete_removed_files = False\<rparr>"

text \<open>
  \<^verbatim>\<open>run_calc\<close> on structures as values: \<^verbatim>\<open>deepcopy\<close> of a value is the value, and the
  structure returned is the one the solver trigger leaves behind. (The same function on
  references into an object store follows further down.)
\<close>

definition run_calc ::
  "('g, 'w) env \<Rightarrow> 'g atoms \<Rightarrow> string option \<Rightarrow> bool \<Rightarrow> bool \<Rightarrow> ('g atoms, 'g, 'w) io" where
  "run_calc env atoms scratch_dir gzip copy_from_store_dir w =
     (case calc atoms of
        None \<Rightarrow> raise_io ValueError_no_calculator w
      | Some _ \<Rightarrow>
          with_ScratchDir env (run_calc_args env scratch_dir gzip copy_from_store_dir w)
            (extern (get_potential_energy env atoms) (Solver_triggered atoms)) w)"

text \<open>The recipes call \<^verbatim>\<open>run_calc(atoms)\<close>, with the defaults
  \<^verbatim>\<open>scratch_dir=SETTINGS.SCRATCH_DIR, gzip=True, copy_from_store_dir=False\<close>.\<close>

definition run_calc_default :: "('g, 'w) env \<Rightarrow> 'g atoms \<Rightarrow> ('g atoms, 'g, 'w) io" where
  "run_calc_default env atoms = run_calc env atoms (SETTINGS_SCRATCH_DIR env) True False"

section \<open>The recipes of \<^verbatim>\<open>core.py\<close>\<close>

definition call_SmartVasp ::
  "('g, 'w) env \<Rightarrow> 'g atoms \<Rightarrow> string option \<Rightarrow> dict \<Rightarrow> ('g atoms, 'g, 'w) io" where
  "call_SmartVasp env atoms preset flags =
     extern (SmartVasp env atoms preset flags) (SmartVasp_called atoms preset flags)"

definition call_summarize_run ::
  "('g, 'w) env \<Rightarrow> 'g atoms \<Rightarrow> string \<Rightarrow> ('g summary, 'g, 'w) io" where
  "call_summarize_run env atoms name =
     extern (summarize_run env atoms [(''name'', PyStr name)])
       (Summarized atoms [(''name'', PyStr name)])"

text \<open>\<^verbatim>\<open>atoms.calc.kpts\<close>.\<close>

definition calc_kpts :: "'g atoms \<Rightarrow> (pyval, 'g, 'w) io" where
  "calc_kpts atoms =
     (case calc atoms of None \<Rightarrow> raise_io AttributeError | Some c \<Rightarrow> return_io (kpts c))"

text \<open>\<^verbatim>\<open>summary1["atoms"]\<close>.\<close>

definition summary_get_atoms :: "'g summary \<Rightarrow> ('g atoms, 'g, 'w) io" where
  "summary_get_atoms s =
     (case summary_atoms s of None \<Rightarrow> raise_io KeyError | Some a \<Rightarrow> return_io a)"

definition trivial_grid :: pyval where
  "trivial_grid = PyList [PyInt 1, PyInt 1, PyInt 1]"

text \<open>
  \<^verbatim>\<open>v == n\<close> for an integer \<open>n\<close>: numbers compare by value across \<^verbatim>\<open>int\<close>, \<^verbatim>\<open>bool\<close>
  and \<^verbatim>\<open>float\<close>; nothing else equals a number. \<^verbatim>\<open>v == [1, 1, 1]\<close>: only a list
  equals a list (a tuple does not), element by element.
\<close>

fun py_eq_int :: "pyval \<Rightarrow> int \<Rightarrow> bool" where
  "py_eq_int (PyInt i) n = (i = n)"
| "py_eq_int (PyBool b) n = ((if b then 1 else 0) = n)"
| "py_eq_int (PyFloat m e) n = (if 0 \<le> e then m * 10 ^ nat e = n else m = n * 10 ^ nat (- e))"
| "py_eq_int _ n = False"

fun eq_trivial_grid :: "pyval \<Rightarrow> bool" where
  "eq_trivial_grid (PyList [a, b, c]) = (py_eq_int a 1 \<and> py_eq_int b 1 \<and> py_eq_int c 1)"
| "eq_trivial_grid _ = False"

text \<open>
  \<^verbatim>\<open>if kpts1 == [1, 1, 1] and kpts2 != [1, 1, 1]: atoms.calc.set(istart=0)\<close>.
  It is reached only after \<^verbatim>\<open>atoms.calc.kpts\<close> has been read, so the calculator is
  there.
\<close>

definition set_istart_if_needed :: "pyval \<Rightarrow> pyval \<Rightarrow> 'g atoms \<Rightarrow> 'g atoms" where
  "set_istart_if_needed kpts1 kpts2 atoms =
     (if eq_trivial_grid kpts1 \<and> \<not> eq_trivial_grid kpts2
      then atoms\<lparr>calc := map_option (calc_set ''istart'' (PyInt 0)) (calc atoms)\<rparr>
      else atoms)"

definition StaticJob_make :: "('g, 'w) env \<Rightarrow> StaticJob \<Rightarrow> 'g atoms \<Rightarrow> ('g summary, 'g, 'w) io" where
  "StaticJob_make env job atoms =
     bind_io (call_SmartVasp env atoms (sj_preset job) (StaticJob_flags job)) (\<lambda>atoms.
     bind_io (run_calc_default env atoms) (\<lambda>atoms.
     call_summarize_run env atoms (sj_name job)))"

definition RelaxJob_make :: "('g, 'w) env \<Rightarrow> RelaxJob \<Rightarrow> 'g atoms \<Rightarrow> ('g summary, 'g, 'w) io" where
  "RelaxJob_make env job atoms =
     bind_io (call_SmartVasp env atoms (rj_preset job) (RelaxJob_flags job)) (\<lambda>atoms.
     bind_io (run_calc_default env atoms) (\<lambda>atoms.
     call_summarize_run env atoms (rj_name job)))"

definition DoubleRelaxJob_make ::
  "('g, 'w) env \<Rightarrow> DoubleRelaxJob \<Rightarrow> 'g atoms \<Rightarrow> ('g summary \<times> 'g summary, 'g, 'w) io" where
  "DoubleRelaxJob_make env job atoms =
     bind_io (call_SmartVasp env atoms (dj_preset job) (DoubleRelaxJob_flags1 job)) (\<lambda>atoms.
     bind_io (calc_kpts atoms) (\<lambda>kpts1.
     bind_io (run_calc_default env atoms) (\<lambda>atoms.
     bind_io (call_summarize_run env atoms (dj_name job)) (\<lambda>summary1.
     bind_io (summary_get_atoms summary1) (\<lambda>atoms.
     bind_io (call_SmartVasp env atoms (dj_preset job) (DoubleRelaxJob_flags2 job)) (\<lambda>atoms.
     bind_io (calc_kpts atoms) (\<lambda>kpts2.
     bind_io (run_calc_default env (set_istart_if_needed kpts1 kpts2 atoms)) (\<lambda>atoms.
     bind_io (call_summarize_run env atoms (dj_name job)) (\<lambda>summary2.
     return_io (summary1, summary2))))))))))"

section \<open>The recipes of \<^verbatim>\<open>qmof.py\<close>\<close>

definition prerelax ::
  "('g, 'w) env \<Rightarrow> 'g atoms \<Rightarrow> string option \<Rightarrow> dict option \<Rightarrow> pyval \<Rightarrow> ('g atoms, 'g, 'w) io" where
  "prerelax env atoms preset swaps fmax =
     bind_io (emit (Entered ''prerelax'')) (\<lambda>_.
     bind_io (call_SmartVasp env atoms preset (prerelax_flags swaps)) (\<lambda>atoms.
     extern (BFGSLineSearch_run env atoms fmax) (Optimizer_run atoms fmax)))"

definition loose_relax_positions ::
  "('g, 'w) env \<Rightarrow> 'g atoms \<Rightarrow> string option \<Rightarrow> dict option \<Rightarrow> ('g atoms, 'g, 'w) io" where
  "loose_relax_positions env atoms preset swaps =
     bind_io (emit (Entered ''loose_relax_positions'')) (\<lambda>_.
     bind_io (call_SmartVasp env atoms preset (loose_relax_positions_flags swaps)) (\<lambda>atoms.
     run_calc_default env atoms))"

definition loose_relax_volume ::
  "('g, 'w) env \<Rightarrow> 'g atoms \<Rightarrow> string option \<Rightarrow> dict option \<Rightarrow> ('g atoms, 'g, 'w) io" where
  "loose_relax_volume env atoms preset swaps =
     bind_io (emit (Entered ''loose_relax_volume'')) (\<lambda>_.
     bind_io (call_SmartVasp env atoms preset (loose_relax_volume_flags swaps)) (\<lambda>atoms.
     run_calc_default env atoms))"

definition double_relax ::
  "('g, 'w) env \<Rightarrow> 'g atoms \<Rightarrow> string option \<Rightarrow> dict option \<Rightarrow> bool \<Rightarrow> ('g atoms, 'g, 'w) io" where
  "double_relax env atoms preset swaps volume_relax =
     bind_io (emit (Entered ''double_relax'')) (\<lambda>_.
     bind_io (call_SmartVasp env atoms preset (double_relax_flags1 swaps volume_relax)) (\<lambda>atoms.
     bind_io (calc_kpts atoms) (\<lambda>kpts1.
     bind_io (run_calc_default env atoms) (\<lambda>atoms.
     bind_io (call_SmartVasp env atoms preset (double_relax_flags2 swaps volume_relax)) (\<lambda>atoms.
     bind_io (calc_kpts atoms) (\<lambda>kpts2.
     run_calc_default env (set_istart_if_needed kpts1 kpts2 atoms)))))))"

text \<open>\<^verbatim>\<open>QMOFMaker.make\<close>; \<^verbatim>\<open>fmax=5.0\<close> is \<open>PyFloat 50 (- 1)\<close>.\<close>

definition QMOFMaker_make :: "('g, 'w) env \<Rightarrow> QMOFMaker \<Rightarrow> 'g atoms \<Rightarrow> ('g summary, 'g, 'w) io" where
  "QMOFMaker_make env job atoms =
     bind_io (prerelax env atoms (qm_preset job) (Some (or_empty (qm_swaps job))) (PyFloat 50 (- 1)))
       (\<lambda>atoms.
     bind_io (loose_relax_positions env atoms (qm_preset job) (Some (or_empty (qm_swaps job))))
       (\<lambda>atoms.
     bind_io (if qm_volume_relax job
              then loose_relax_volume env atoms (qm_preset job) (Some (or_empty (qm_swaps job)))
              else return_io atoms)
       (\<lambda>atoms.
     bind_io (double_relax env atoms (qm_preset job) (Some (or_empty (qm_swaps job)))
                (qm_volume_relax job))
       (\<lambda>atoms.
     call_summarize_run env atoms (qm_name job)))))"

section \<open>Reading a run's events\<close>

text \<open>The structures returned by \<^verbatim>\<open>SmartVasp\<close> (each stage's resolved calculator is
  attached to them), and the structures on which the solver trigger was called.\<close>

fun resolved_of :: "'g event \<Rightarrow> 'g atoms list" where
  "resolved_of (SmartVasp_called _ _ _ (Inr a)) = [a]"
| "resolved_of _ = []"

definition resolved :: "'g event list \<Rightarrow> 'g atoms list" where
  "resolved tr = concat (map resolved_of tr)"

fun triggered_of :: "'g event \<Rightarrow> 'g atoms list" where
  "triggered_of (Solver_triggered a _) = [a]"
| "triggered_of _ = []"

definition triggered :: "'g event list \<Rightarrow> 'g atoms list" where
  "triggered tr = concat (map triggered_of tr)"









text \<open>The stage functions entered and the solver runs started, in order of occurrence.\<close>

fun stage_step :: "'g event \<Rightarrow> string list" where
  "stage_step (Entered f) = [f]"
| "stage_step (Solver_triggered _ _) = [''get_potential_energy'']"
| "stage_step (Optimizer_run _ _ _) = [''BFGSLineSearch.run'']"
| "stage_step _ = []"

definition stage_steps :: "'g event list \<Rightarrow> string list" where
  "stage_steps tr = concat (map stage_step tr)"

fun solver_invocation :: "'g event \<Rightarrow> bool" where
  "solver_invocation (Solver_triggered _ _) = True"
| "solver_invocation (Optimizer_run _ _ _) = True"
| "solver_invocation _ = False"

definition solver_invocations :: "'g event list \<Rightarrow> nat" where
  "solver_invocations tr = length (filter solver_invocation tr)"

section \<open>\<^verbatim>\<open>run_calc\<close> on references\<close>

text \<open>
  \<^verbatim>\<open>run_calc\<close> receives a reference to the caller's \<^verbatim>\<open>Atoms\<close> object, whose
  \<^verbatim>\<open>calc\<close> field is a reference to a calculator object or \<^verbatim>\<open>None\<close>. The store
  holds the fields of all objects; \<open>next_ref\<close> is the next unused address.
  \<^verbatim>\<open>deepcopy\<close> allocates a new \<^verbatim>\<open>Atoms\<close> object and, when there is a calculator, a
  new calculator object, and copies the contents. The solver trigger is a method of the
  copy: what it leaves behind is written to the copy and to the copy's calculator.
\<close>

type_synonym ref = nat

record 'g store =
  atoms_geometry :: "ref \<Rightarrow> 'g"
  atoms_calc :: "ref \<Rightarrow> ref option"
  calculators :: "ref \<Rightarrow> calculator"
  next_ref :: ref

definition load :: "'g store \<Rightarrow> ref \<Rightarrow> 'g atoms" where
  "load s r = \<lparr>geometry = atoms_geometry s r, calc = map_option (calculators s) (atoms_calc s r)\<rparr>"

definition deepcopy :: "ref \<Rightarrow> 'g store \<Rightarrow> ref \<times> 'g store" where
  "deepcopy r s =
     (let n = next_ref s in
      case atoms_calc s r of
        None \<Rightarrow>
          (n, s\<lparr>atoms_geometry := (atoms_geometry s)(n := atoms_geometry s r),
                atoms_calc := (atoms_calc s)(n := None),
                next_ref := Suc n\<rparr>)
      | Some c \<Rightarrow>
          (n, s\<lparr>atoms_geometry := (atoms_geometry s)(n := atoms_geometry s r),
                atoms_calc := (atoms_calc s)(n := Some (Suc n)),
                calculators := (calculators s)(Suc n := calculators s c),
                next_ref := Suc (Suc n)\<rparr>))"

definition store_back :: "ref \<Rightarrow> ref \<Rightarrow> 'g atoms \<Rightarrow> 'g store \<Rightarrow> 'g store" where
  "store_back r c v s =
     (case calc v of
        None \<Rightarrow>
          s\<lparr>atoms_geometry := (atoms_geometry s)(r := geometry v),
            atoms_calc := (atoms_calc s)(r := None)\<rparr>
      | Some cv \<Rightarrow>
          s\<lparr>atoms_geometry := (atoms_geometry s)(r := geometry v),
            calculators := (calculators s)(c := cv)\<rparr>)"

definition run_calc_ref ::
  "('g, 'w) env \<Rightarrow> ref \<Rightarrow> string option \<Rightarrow> bool \<Rightarrow> bool \<Rightarrow> 'g store \<Rightarrow> 'w
     \<Rightarrow> (error + ref) \<times> 'g store \<times> 'w \<times> 'g event list" where
  "run_calc_ref env atoms scratch_dir gzip copy_from_store_dir s w =
     (case deepcopy atoms s of (atoms, s1) \<Rightarrow>
        (case atoms_calc s1 atoms of
           None \<Rightarrow> (Inl ValueError_no_calculator, s1, w, [])
         | Some c \<Rightarrow>
             (case with_ScratchDir env (run_calc_args env scratch_dir gzip copy_from_store_dir w)
                     (extern (get_potential_energy env (load s1 atoms))
                        (Solver_triggered (load s1 atoms))) w of
                (Inl e, w1, t) \<Rightarrow> (Inl e, s1, w1, t)
              | (Inr v, w1, t) \<Rightarrow> (Inr atoms, store_back atoms c v s1, w1, t))))"

section \<open>An example environment\<close>

text \<open>
  A concrete outside world on which the statements below are exercised: the geometry is
  a number that every solver run increases; \<^verbatim>\<open>SmartVasp\<close> attaches a calculator holding
  the flags, with the grid of the flag \<^verbatim>\<open>kpts\<close> or, without one, the single point
  for geometry 0 and a finer grid otherwise;
  the summarizer hands the structure on without its calculator; nothing fails.
\<close>

definition example_env :: "(int, unit) env" where
  "example_env =
     \<lparr>SmartVasp = (\<lambda>a p f w.
        (Inr (a\<lparr>calc := Some
                \<lparr>kpts = (case map_of f ''kpts'' of
                           None \<Rightarrow> (if geometry a = 0 then trivial_grid
                                    else PyList [PyInt 2, PyInt 2, PyInt 2])
                         | Some k \<Rightarrow> k),
                 directives = f\<rparr>\<rparr>), w)),
      get_potential_energy = (\<lambda>a w. (Inr (a\<lparr>geometry := geometry a + 1\<rparr>), w)),
      BFGSLineSearch_run = (\<lambda>a fmax w. (Inr (a\<lparr>geometry := geometry a + 1\<rparr>), w)),
      summarize_run = (\<lambda>a f w. (Inr \<lparr>summary_atoms = Some (a\<lparr>calc := None\<rparr>), summary_fields = f\<rparr>, w)),
      ScratchDir_enter = (\<lambda>args w. (Inr (), w)),
      ScratchDir_exit = (\<lambda>args p w. (Inr (), w)),
      getcwd = (\<lambda>w. ''/work''),
      abspath = (\<lambda>p w. p),
      os_name = ''posix'',
      SETTINGS_SCRATCH_DIR = Some ''/scratch''\<rparr>"

definition example_atoms :: "int atoms" where
  "example_atoms = \<lparr>geometry = 0, calc = None\<rparr>"

definition gamma_grid :: dict where
  "gamma_grid = [(''kpts'', PyList [PyInt 1, PyInt 1, PyInt 1])]"

definition fine_grid :: dict where
  "fine_grid = [(''kpts'', PyList [PyInt 2, PyInt 2, PyInt 2])]"

definition example_DoubleRelaxJob :: DoubleRelaxJob where
  "example_DoubleRelaxJob =
     \<lparr>dj_name = ''VASP-DoubleRelax'', dj_preset = None, dj_volume_relax = True,
      dj_swaps1 = Some gamma_grid, dj_swaps2 = Some fine_grid\<rparr>"

definition example_structure :: "int \<Rightarrow> pyval \<Rightarrow> dict \<Rightarrow> int atoms" where
  "example_structure g k f = \<lparr>geometry = g, calc = Some \<lparr>kpts = k, directives = f\<rparr>\<rparr>"

definition example_QMOFMaker :: QMOFMaker where
  "example_QMOFMaker =
     \<lparr>qm_name = ''QMOF-Relax'', qm_preset = Some ''QMOFSet'', qm_volume_relax = False,
      qm_swaps = None\<rparr>"

definition example_store :: "int store" where
  "example_store =
     \<lparr>atoms_geometry = (\<lambda>_. 0),
      atoms_calc = (\<lambda>_. None)(0 := Some 1),
      calculators = (\<lambda>_. \<lparr>kpts = trivial_grid, directives = []\<rparr>),
      next_ref = 2\<rparr>"


section \<open>Properties of the merge\<close>

lemma overlay_Nil: "overlay d [] = d"
  by (simp add: overlay_def)

text \<open>
  Claim C4. For the static recipe, merging the fixed defaults with the override layer
  \<^verbatim>\<open>{nedos: None}\<close> under \<^verbatim>\<open>remove_none=True\<close> gives a parameter set without the key
  \<^verbatim>\<open>nedos\<close> in which every other default keeps its value (and its place).
\<close>

theorem StaticJob_nedos_None:
  "StaticJob_flags \<lparr>sj_name = n, sj_preset = p, sj_swaps = Some [(''nedos'', PyNone)]\<rparr>
     = [(''ismear'', PyInt (- 5)),
        (''isym'', PyInt 2),
        (''laechg'', PyBool True),
        (''lcharg'', PyBool True),
        (''lwave'', PyBool True),
        (''nsw'', PyInt 0),
        (''sigma'', PyFloat 5 (- 2))]
   \<and> StaticJob_flags \<lparr>sj_name = n, sj_preset = p, sj_swaps = Some [(''nedos'', PyNone)]\<rparr>
     = AList.delete ''nedos'' StaticJob_defaults
   \<and> ''nedos'' \<notin> set (keys (StaticJob_flags
          \<lparr>sj_name = n, sj_preset = p, sj_swaps = Some [(''nedos'', PyNone)]\<rparr>))"
  by (simp add: StaticJob_flags_def merge_dicts_def overlay_def or_empty_def drop_none_def
      is_none_def StaticJob_defaults_def keys_def)

lemma overlay_Cons: "overlay d ((k, v) # layer) = overlay (AList.update k v d) layer"
  by (simp add: overlay_def)

lemma overlay_delete:
  "k \<notin> set (keys layer) \<Longrightarrow> overlay (AList.delete k d) layer = AList.delete k (overlay d layer)"
proof (induction layer arbitrary: d)
  case Nil
  then show ?case by (simp add: overlay_Nil)
next
  case (Cons kv layer)
  obtain k' v' where kv: "kv = (k', v')" by (cases kv)
  from Cons.prems kv have ne: "k' \<noteq> k" and rest: "k \<notin> set (keys layer)"
    by (auto simp: keys_def)
  have "overlay (AList.delete k d) (kv # layer) = overlay (AList.update k' v' (AList.delete k d)) layer"
    by (simp add: kv overlay_Cons)
  also have "\<dots> = overlay (AList.delete k (AList.update k' v' d)) layer"
    using ne by (simp add: delete_update)
  also have "\<dots> = AList.delete k (overlay (AList.update k' v' d) layer)"
    by (rule Cons.IH [OF rest])
  finally show ?case by (simp add: kv overlay_Cons)
qed

lemma map_of_overlay_other:
  "k \<notin> set (keys layer) \<Longrightarrow> map_of (overlay d layer) k = map_of d k"
proof (induction layer arbitrary: d)
  case Nil
  then show ?case by (simp add: overlay_Nil)
next
  case (Cons kv layer)
  obtain k' v' where kv: "kv = (k', v')" by (cases kv)
  from Cons.prems kv have ne: "k' \<noteq> k" and rest: "k \<notin> set (keys layer)"
    by (auto simp: keys_def)
  show ?case using Cons.IH [OF rest, of "AList.update k' v' d"] ne
    by (simp add: kv overlay_Cons update_conv')
qed

lemma drop_none_delete: "drop_none (AList.delete k d) = AList.delete k (drop_none d)"
  by (induction d) (auto simp: drop_none_def)

lemma map_of_drop_none_Some:
  "map_of d k = Some v \<Longrightarrow> \<not> is_none v \<Longrightarrow> map_of (drop_none d) k = Some v"
  by (induction d) (auto simp: drop_none_def split: if_splits)

lemma keys_delete: "k \<notin> set (keys (AList.delete k d))"
  by (simp add: keys_def delete_keys)

lemma drop_none_id: "drop_none D = D \<longleftrightarrow> list_all (\<lambda>(k, v). \<not> is_none v) D"
  by (auto simp: drop_none_def filter_id_conv list_all_iff)

text \<open>
  Claim C9, as the code has it. Without override layers, or with one empty layer, the
  merge returns the defaults verbatim when \<^verbatim>\<open>remove_none\<close> is false, and the defaults
  without their \<^verbatim>\<open>None\<close>-valued entries when it is true; that is the defaults
  themselves exactly when no default is \<^verbatim>\<open>None\<close>. With \<^verbatim>\<open>swaps=None\<close> the recipes
  of \<^verbatim>\<open>core.py\<close>, \<^verbatim>\<open>loose_relax_volume\<close> and the first stage of \<^verbatim>\<open>double_relax\<close>
  resolve exactly their defaults; \<^verbatim>\<open>prerelax\<close> and \<^verbatim>\<open>loose_relax_positions\<close>, whose
  defaults hold \<^verbatim>\<open>"encut": None\<close>, resolve their defaults without \<^verbatim>\<open>encut\<close>.
\<close>

theorem merge_without_overrides:
  "merge_dicts D [] remove_none = (if remove_none then drop_none D else D)
   \<and> merge_dicts D [[]] remove_none = (if remove_none then drop_none D else D)
   \<and> (drop_none D = D \<longleftrightarrow> list_all (\<lambda>(k, v). \<not> is_none v) D)
   \<and> StaticJob_flags (sj\<lparr>sj_swaps := None\<rparr>) = StaticJob_defaults
   \<and> RelaxJob_flags (rj\<lparr>rj_swaps := None\<rparr>) = RelaxJob_defaults (rj_volume_relax rj)
   \<and> DoubleRelaxJob_flags1 (dj\<lparr>dj_swaps1 := None\<rparr>) = DoubleRelaxJob_defaults (dj_volume_relax dj)
   \<and> DoubleRelaxJob_flags2 (dj\<lparr>dj_swaps2 := None\<rparr>) = DoubleRelaxJob_defaults (dj_volume_relax dj)
   \<and> loose_relax_volume_flags None = loose_relax_volume_defaults
   \<and> double_relax_flags1 None volume_relax = double_relax_defaults volume_relax
   \<and> prerelax_flags None = AList.delete ''encut'' prerelax_defaults
   \<and> loose_relax_positions_flags None = AList.delete ''encut'' loose_relax_positions_defaults"
  by (simp add: merge_dicts_def overlay_Nil drop_none_id StaticJob_flags_def RelaxJob_flags_def
      DoubleRelaxJob_flags1_def DoubleRelaxJob_flags2_def loose_relax_volume_flags_def
      double_relax_flags1_def prerelax_flags_def loose_relax_positions_flags_def or_empty_def)
    (simp add: drop_none_def is_none_def StaticJob_defaults_def RelaxJob_defaults_def
      DoubleRelaxJob_defaults_def loose_relax_volume_defaults_def double_relax_defaults_def
      prerelax_defaults_def loose_relax_positions_defaults_def)

text \<open>
  Claim C9, as stated, fails: \<^verbatim>\<open>prerelax\<close> called with \<^verbatim>\<open>swaps=None\<close> does not resolve
  its defaults dictionary, since \<^verbatim>\<open>remove_none=True\<close> drops the default
  \<^verbatim>\<open>"encut": None\<close>.
\<close>

theorem prerelax_flags_not_defaults: "prerelax_flags None \<noteq> prerelax_defaults"
  by (simp add: prerelax_flags_def merge_dicts_def overlay_def or_empty_def drop_none_def
      is_none_def prerelax_defaults_def)

text \<open>
  Claim C10. In \<^verbatim>\<open>double_relax\<close>, when the user's swaps do not mention \<^verbatim>\<open>lreal\<close>,
  the flags of the first sub-stage set \<^verbatim>\<open>lreal\<close> to \<^verbatim>\<open>"auto"\<close>, the flags of the second
  sub-stage have no key \<^verbatim>\<open>lreal\<close>, and the second flags are the first ones with that
  one entry removed: the two sets differ in \<^verbatim>\<open>lreal\<close> only.
\<close>

theorem double_relax_lreal:
  assumes "''lreal'' \<notin> set (keys (or_empty swaps))"
  shows "map_of (double_relax_flags1 swaps volume_relax) ''lreal'' = Some (PyStr ''auto'')
       \<and> ''lreal'' \<notin> set (keys (double_relax_flags2 swaps volume_relax))
       \<and> double_relax_flags2 swaps volume_relax
           = AList.delete ''lreal'' (double_relax_flags1 swaps volume_relax)"
proof -
  let ?D = "double_relax_defaults volume_relax"
  let ?S = "or_empty swaps"
  have d: "map_of ?D ''lreal'' = Some (PyStr ''auto'')"
    by (simp add: double_relax_defaults_def)
  have "map_of (overlay ?D ?S) ''lreal'' = Some (PyStr ''auto'')"
    using map_of_overlay_other [OF assms] d by simp
  then have one: "map_of (double_relax_flags1 swaps volume_relax) ''lreal'' = Some (PyStr ''auto'')"
    by (simp add: double_relax_flags1_def merge_dicts_def map_of_drop_none_Some is_none_def)
  have two: "double_relax_flags2 swaps volume_relax
           = AList.delete ''lreal'' (double_relax_flags1 swaps volume_relax)"
    by (simp add: double_relax_flags1_def double_relax_flags2_def merge_dicts_def
        overlay_delete [OF assms] drop_none_delete)
  show ?thesis using one two keys_delete [of "''lreal''"] by simp
qed

theorem double_relax_lreal_witness:
  "''lreal'' \<notin> set (keys (or_empty (Some [(''ediff'', PyFloat 1 (- 6))])))
   \<and> map_of (double_relax_flags1 (Some [(''ediff'', PyFloat 1 (- 6))]) False) ''lreal''
       = Some (PyStr ''auto'')
   \<and> double_relax_flags2 (Some [(''ediff'', PyFloat 1 (- 6))]) False
       = [(''isif'', PyInt 2), (''lcharg'', PyBool False), (''lwave'', PyBool True),
          (''nsw'', PyInt 250), (''ediff'', PyFloat 1 (- 6))]"
proof -
  have h: "''lreal'' \<notin> set (keys (or_empty (Some [(''ediff'', PyFloat 1 (- 6))])))"
    by (simp add: keys_def or_empty_def)
  have e: "double_relax_flags1 (Some [(''ediff'', PyFloat 1 (- 6))]) False
       = [(''isif'', PyInt 2), (''lcharg'', PyBool False), (''lreal'', PyStr ''auto''),
          (''lwave'', PyBool True), (''nsw'', PyInt 250), (''ediff'', PyFloat 1 (- 6))]"
    by (simp add: double_relax_flags1_def merge_dicts_def overlay_def or_empty_def drop_none_def
      is_none_def double_relax_defaults_def)
  show ?thesis using h double_relax_lreal [OF h, of False] by (simp add: e)
qed

section \<open>Stepping through a run\<close>

lemma bind_ioE:
  assumes "bind_io m f w = (r, w', tr)"
  obtains (raised) e where "m w = (Inl e, w', tr)" and "r = Inl e"
  | (returned) x w1 t1 t2 where "m w = (Inr x, w1, t1)" and "f x w1 = (r, w', t2)" and "tr = t1 @ t2"
  using assms by (auto simp: bind_io_def split: prod.splits sum.splits)

lemma externE:
  assumes "extern f ev w = (r, w', t)"
  obtains (raised) msg where "f w = (Inl msg, w')" and "r = Inl (External msg)" and "t = [ev (Inl msg)]"
  | (returned) x where "f w = (Inr x, w')" and "r = Inr x" and "t = [ev (Inr x)]"
  using assms by (auto simp: extern_def split: prod.splits sum.splits)

lemma emitE:
  assumes "emit ev w = (r, w', t)"
  obtains "r = Inr ()" and "w' = w" and "t = [ev]"
  using assms by (auto simp: emit_def)

lemma return_ioE:
  assumes "return_io x w = (r, w', t)"
  obtains "r = Inr x" and "w' = w" and "t = []"
  using assms by (auto simp: return_io_def)

lemma call_SmartVaspE:
  assumes "call_SmartVasp env a p f w = (r, w', t)"
  obtains (raised) msg where "r = Inl (External msg)" and "t = [SmartVasp_called a p f (Inl msg)]"
  | (returned) x where "r = Inr x" and "t = [SmartVasp_called a p f (Inr x)]"
  using assms unfolding call_SmartVasp_def by (auto elim!: externE)

lemma call_summarize_runE:
  assumes "call_summarize_run env a n w = (r, w', t)"
  obtains (raised) msg where "r = Inl (External msg)"
      and "t = [Summarized a [(''name'', PyStr n)] (Inl msg)]"
  | (returned) s where "r = Inr s" and "t = [Summarized a [(''name'', PyStr n)] (Inr s)]"
  using assms unfolding call_summarize_run_def by (auto elim!: externE)

lemma calc_kptsE:
  assumes "calc_kpts a w = (r, w', t)"
  obtains (raised) "calc a = None" and "r = Inl AttributeError" and "t = []" and "w' = w"
  | (returned) c where "calc a = Some c" and "r = Inr (kpts c)" and "t = []" and "w' = w"
  using assms by (auto simp: calc_kpts_def raise_io_def return_io_def split: option.splits)

lemma summary_get_atomsE:
  assumes "summary_get_atoms s w = (r, w', t)"
  obtains (raised) "summary_atoms s = None" and "r = Inl KeyError" and "t = []" and "w' = w"
  | (returned) a where "summary_atoms s = Some a" and "r = Inr a" and "t = []" and "w' = w"
  using assms by (auto simp: summary_get_atoms_def raise_io_def return_io_def split: option.splits)

lemma with_ScratchDirE:
  assumes "with_ScratchDir env args body w = (r, w', t)"
  obtains (enter_raised) msg where "r = Inl (External msg)" and "t = [ScratchDir_entered args]"
  | (exited) w1 rb w2 tb where "ScratchDir_enter env args w = (Inr (), w1)"
      and "body w1 = (rb, w2, tb)"
      and "t = [ScratchDir_entered args] @ tb @ [ScratchDir_exited args (pending rb)]"
      and "r = rb \<or> (\<exists>msg. r = Inl (External msg))"
  using assms unfolding with_ScratchDir_def
  by (auto split: prod.splits sum.splits)

lemma run_calcE:
  assumes "run_calc env a sd gz cp w = (r, w', t)"
  obtains (no_calculator) "calc a = None" and "r = Inl ValueError_no_calculator" and "t = []" and "w' = w"
  | (enter_raised) c msg where "calc a = Some c" and "r = Inl (External msg)"
      and "t = [ScratchDir_entered (run_calc_args env sd gz cp w)]"
  | (solver_raised) c msg msg' where "calc a = Some c" and "r = Inl (External msg')"
      and "t = [ScratchDir_entered (run_calc_args env sd gz cp w), Solver_triggered a (Inl msg),
                ScratchDir_exited (run_calc_args env sd gz cp w) (Some (External msg))]"
  | (exit_raised) c x msg where "calc a = Some c" and "r = Inl (External msg)"
      and "t = [ScratchDir_entered (run_calc_args env sd gz cp w), Solver_triggered a (Inr x),
                ScratchDir_exited (run_calc_args env sd gz cp w) None]"
  | (returned) c x where "calc a = Some c" and "r = Inr x"
      and "t = [ScratchDir_entered (run_calc_args env sd gz cp w), Solver_triggered a (Inr x),
                ScratchDir_exited (run_calc_args env sd gz cp w) None]"
proof (cases "calc a")
  case None
  with assms no_calculator show ?thesis by (simp add: run_calc_def raise_io_def)
next
  case (Some c)
  with assms have "with_ScratchDir env (run_calc_args env sd gz cp w)
            (extern (get_potential_energy env a) (Solver_triggered a)) w = (r, w', t)"
    by (simp add: run_calc_def)
  then show ?thesis
    using Some enter_raised solver_raised exit_raised returned
    by (elim with_ScratchDirE externE) (auto simp: pending_def)
qed

text \<open>
  What the sources fix about the scratch session of one \<^verbatim>\<open>run_calc\<close> call on a structure
  with a calculator: \<^verbatim>\<open>__enter__\<close> is called first; unless it raises, the solver is
  triggered once and then \<^verbatim>\<open>__exit__\<close> is called once, last, whether the solver
  returned or raised, and is given the solver's exception. The context manager is built
  with \<^verbatim>\<open>copy_to_current_on_exit=True\<close>, \<^verbatim>\<open>gzip_on_exit=gzip\<close>,
  \<^verbatim>\<open>remove_symlink_on_exit=True\<close> and \<^verbatim>\<open>delete_removed_files=False\<close>. What
  \<^verbatim>\<open>__exit__\<close> then does to the directories is the business of
  \<^verbatim>\<open>monty.tempfile.ScratchDir\<close>, which is not part of these sources.
\<close>

lemma run_calc_scratch_session:
  assumes "run_calc env a sd gz cp w = (r, w', t)" and "calc a \<noteq> None"
  shows "t = [ScratchDir_entered (run_calc_args env sd gz cp w)]
       \<or> (\<exists>out. t = [ScratchDir_entered (run_calc_args env sd gz cp w), Solver_triggered a out,
                      ScratchDir_exited (run_calc_args env sd gz cp w)
                        (case out of Inl msg \<Rightarrow> Some (External msg) | Inr _ \<Rightarrow> None)])"
    and "copy_to_current_on_exit (run_calc_args env sd gz cp w)"
    and "gzip_on_exit (run_calc_args env sd gz cp w) = gz"
    and "remove_symlink_on_exit (run_calc_args env sd gz cp w)"
    and "\<not> delete_removed_files (run_calc_args env sd gz cp w)"
    and "copy_from_current_on_enter (run_calc_args env sd gz cp w) = cp"
  using assms by (auto elim!: run_calcE simp: run_calc_args_def)

lemmas stepE = bind_ioE emitE return_ioE call_SmartVaspE calc_kptsE run_calcE call_summarize_runE
  summary_get_atomsE

lemma set_istart_Some:
  "calc a = Some c \<Longrightarrow> set_istart_if_needed k1 k2 a =
     (if eq_trivial_grid k1 \<and> \<not> eq_trivial_grid k2
      then a\<lparr>calc := Some (c\<lparr>directives := AList.update ''istart'' (PyInt 0) (directives c)\<rparr>)\<rparr>
      else a)"
  by (simp add: set_istart_if_needed_def calc_set_def)

lemma DoubleRelaxJob_second_trigger:
  assumes "DoubleRelaxJob_make env job atoms w = (r, w', tr)" and "triggered tr = [b1, b2]"
  shows "\<exists>a1 c1 a2 c2. resolved tr = [a1, a2] \<and> calc a1 = Some c1 \<and> calc a2 = Some c2 \<and> b1 = a1
      \<and> b2 = set_istart_if_needed (kpts c1) (kpts c2) a2"
  using assms
  unfolding DoubleRelaxJob_make_def run_calc_default_def
  by (auto elim!: stepE simp: resolved_def triggered_def)

lemma double_relax_second_trigger:
  assumes "double_relax env atoms preset swaps vr w = (r, w', tr)" and "triggered tr = [b1, b2]"
  shows "\<exists>a1 c1 a2 c2. resolved tr = [a1, a2] \<and> calc a1 = Some c1 \<and> calc a2 = Some c2 \<and> b1 = a1
      \<and> b2 = set_istart_if_needed (kpts c1) (kpts c2) a2"
  using assms
  unfolding double_relax_def run_calc_default_def
  by (auto elim!: stepE simp: resolved_def triggered_def)

lemmas eval_defs = bind_io_def emit_def call_SmartVasp_def call_summarize_run_def extern_def
  calc_kpts_def summary_get_atoms_def return_io_def raise_io_def run_calc_default_def run_calc_def
  with_ScratchDir_def run_calc_args_def scratch_root_def pending_def set_istart_if_needed_def
  calc_set_def trivial_grid_def merge_dicts_def overlay_def or_empty_def drop_none_def is_none_def
  example_env_def example_atoms_def gamma_grid_def fine_grid_def
  resolved_def triggered_def

text \<open>
  Claim C3. When the structure has no calculator, \<^verbatim>\<open>run_calc\<close> raises its
  \<^verbatim>\<open>ValueError\<close> at once: the outside world is as it was and no event has happened
  (no scratch directory entered, no solver triggered, nothing retried). When the structure
  has a calculator, the outcome of \<^verbatim>\<open>run_calc\<close> is never that error.
\<close>

theorem run_calc_fails_fast:
  "(calc atoms = None \<longrightarrow>
      run_calc env atoms scratch_dir gzip copy_from_store_dir w = (Inl ValueError_no_calculator, w, []))
   \<and> (calc atoms \<noteq> None \<longrightarrow>
      fst (run_calc env atoms scratch_dir gzip copy_from_store_dir w) \<noteq> Inl ValueError_no_calculator)"
proof (cases "run_calc env atoms scratch_dir gzip copy_from_store_dir w")
  case (fields r w' t)
  then show ?thesis by (auto elim!: run_calcE)
qed

theorem run_calc_fails_fast_witness:
  "calc example_atoms = None
   \<and> run_calc example_env example_atoms None True False () = (Inl ValueError_no_calculator, (), [])
   \<and> calc (example_atoms\<lparr>calc := Some \<lparr>kpts = trivial_grid, directives = []\<rparr>\<rparr>) \<noteq> None
   \<and> fst (run_calc example_env (example_atoms\<lparr>calc := Some \<lparr>kpts = trivial_grid, directives = []\<rparr>\<rparr>)
             None True False ()) \<noteq> Inl ValueError_no_calculator"
  using run_calc_fails_fast [of example_atoms example_env None True False "()"]
    run_calc_fails_fast [of "example_atoms\<lparr>calc := Some \<lparr>kpts = trivial_grid, directives = []\<rparr>\<rparr>"
      example_env None True False "()"]
  by (simp add: example_atoms_def)

text \<open>
  Claim C1. In \<^verbatim>\<open>DoubleRelaxJob.make\<close> and in \<^verbatim>\<open>double_relax\<close> of \<^verbatim>\<open>qmof.py\<close>
  alike: let \<open>a1\<close> and \<open>a2\<close> be the structures the two \<^verbatim>\<open>SmartVasp\<close> calls returned,
  with calculators \<open>c1\<close> and \<open>c2\<close>, and let the solver have been triggered on \<open>b1\<close> and
  then on \<open>b2\<close>. Then \<open>b1\<close> is \<open>a1\<close>; when the grid of \<open>c1\<close> equals \<^verbatim>\<open>[1, 1, 1]\<close> and the
  grid of \<open>c2\<close> does not (in the sense of \<^verbatim>\<open>==\<close>), \<open>b2\<close> is \<open>a2\<close> with \<^verbatim>\<open>istart\<close> set to
  \<open>0\<close> on its calculator; for every other pair of grids \<open>b2\<close> is \<open>a2\<close>, untouched.
\<close>

theorem cross_stage_restart_rule:
  "(DoubleRelaxJob_make env job atoms w = (r, w', tr)
      \<and> resolved tr = [a1, a2] \<and> calc a1 = Some c1 \<and> calc a2 = Some c2
      \<and> triggered tr = [b1, b2]
    \<longrightarrow> b1 = a1
      \<and> (if eq_trivial_grid (kpts c1) \<and> \<not> eq_trivial_grid (kpts c2)
         then b2 = a2\<lparr>calc := Some (c2\<lparr>directives :=
                        AList.update ''istart'' (PyInt 0) (directives c2)\<rparr>)\<rparr>
         else b2 = a2))
   \<and> (double_relax env atoms preset swaps volume_relax w = (rq, w', tr)
      \<and> resolved tr = [a1, a2] \<and> calc a1 = Some c1 \<and> calc a2 = Some c2
      \<and> triggered tr = [b1, b2]
    \<longrightarrow> b1 = a1
      \<and> (if eq_trivial_grid (kpts c1) \<and> \<not> eq_trivial_grid (kpts c2)
         then b2 = a2\<lparr>calc := Some (c2\<lparr>directives :=
                        AList.update ''istart'' (PyInt 0) (directives c2)\<rparr>)\<rparr>
         else b2 = a2))"
proof -
  have one: "b1 = a1 \<and> (if eq_trivial_grid (kpts c1) \<and> \<not> eq_trivial_grid (kpts c2)
         then b2 = a2\<lparr>calc := Some (c2\<lparr>directives :=
                        AList.update ''istart'' (PyInt 0) (directives c2)\<rparr>)\<rparr>
         else b2 = a2)"
    if "DoubleRelaxJob_make env job atoms w = (r, w', tr)" and "triggered tr = [b1, b2]"
      and "resolved tr = [a1, a2]" and "calc a1 = Some c1" and "calc a2 = Some c2"
    using DoubleRelaxJob_second_trigger [OF that(1,2)] that(3-5)
    by (auto simp: set_istart_Some)
  have two: "b1 = a1 \<and> (if eq_trivial_grid (kpts c1) \<and> \<not> eq_trivial_grid (kpts c2)
         then b2 = a2\<lparr>calc := Some (c2\<lparr>directives :=
                        AList.update ''istart'' (PyInt 0) (directives c2)\<rparr>)\<rparr>
         else b2 = a2)"
    if "double_relax env atoms preset swaps volume_relax w = (rq, w', tr)" and "triggered tr = [b1, b2]"
      and "resolved tr = [a1, a2]" and "calc a1 = Some c1" and "calc a2 = Some c2"
    using double_relax_second_trigger [OF that(1,2)] that(3-5)
    by (auto simp: set_istart_Some)
  from one two show ?thesis by blast
qed

lemmas example_defs = example_DoubleRelaxJob_def example_structure_def
  DoubleRelaxJob_flags1_def DoubleRelaxJob_flags2_def DoubleRelaxJob_defaults_def
  double_relax_flags1_def double_relax_flags2_def double_relax_defaults_def

theorem cross_stage_restart_rule_witness:
  "resolved (snd (snd (DoubleRelaxJob_make example_env example_DoubleRelaxJob example_atoms ())))
     = [example_structure 0 trivial_grid (DoubleRelaxJob_flags1 example_DoubleRelaxJob),
        example_structure 1 (PyList [PyInt 2, PyInt 2, PyInt 2])
          (DoubleRelaxJob_flags2 example_DoubleRelaxJob)]
   \<and> triggered (snd (snd (DoubleRelaxJob_make example_env example_DoubleRelaxJob example_atoms ())))
     = [example_structure 0 trivial_grid (DoubleRelaxJob_flags1 example_DoubleRelaxJob),
        example_structure 1 (PyList [PyInt 2, PyInt 2, PyInt 2])
          (DoubleRelaxJob_flags2 example_DoubleRelaxJob @ [(''istart'', PyInt 0)])]
   \<and> resolved (snd (snd (double_relax example_env example_atoms (Some ''QMOFSet'') None False ())))
     = [example_structure 0 trivial_grid (double_relax_flags1 None False),
        example_structure 1 (PyList [PyInt 2, PyInt 2, PyInt 2]) (double_relax_flags2 None False)]
   \<and> triggered (snd (snd (double_relax example_env example_atoms (Some ''QMOFSet'') None False ())))
     = [example_structure 0 trivial_grid (double_relax_flags1 None False),
        example_structure 1 (PyList [PyInt 2, PyInt 2, PyInt 2])
          (double_relax_flags2 None False @ [(''istart'', PyInt 0)])]"
proof -
  let ?run1 = "DoubleRelaxJob_make example_env example_DoubleRelaxJob example_atoms ()"
  let ?run2 = "double_relax example_env example_atoms (Some ''QMOFSet'') None False ()"
  let ?a1 = "example_structure 0 trivial_grid (DoubleRelaxJob_flags1 example_DoubleRelaxJob)"
  let ?a2 = "example_structure 1 (PyList [PyInt 2, PyInt 2, PyInt 2])
          (DoubleRelaxJob_flags2 example_DoubleRelaxJob)"
  let ?d1 = "example_structure 0 trivial_grid (double_relax_flags1 None False)"
  let ?d2 = "example_structure 1 (PyList [PyInt 2, PyInt 2, PyInt 2]) (double_relax_flags2 None False)"
  have r1: "resolved (snd (snd ?run1)) = [?a1, ?a2]"
    by (simp add: DoubleRelaxJob_make_def example_defs eval_defs)
  have t1: "\<exists>b. triggered (snd (snd ?run1)) = [?a1, b]"
    by (simp add: DoubleRelaxJob_make_def example_defs eval_defs)
  have r2: "resolved (snd (snd ?run2)) = [?d1, ?d2]"
    by (simp add: double_relax_def example_defs eval_defs)
  have t2: "\<exists>b. triggered (snd (snd ?run2)) = [?d1, b]"
    by (simp add: double_relax_def example_defs eval_defs)
  from t1 obtain b where b: "triggered (snd (snd ?run1)) = [?a1, b]" ..
  from t2 obtain d where d: "triggered (snd (snd ?run2)) = [?d1, d]" ..
  have k: "eq_trivial_grid trivial_grid" "\<not> eq_trivial_grid (PyList [PyInt 2, PyInt 2, PyInt 2])"
    by (simp_all add: trivial_grid_def)
  have c: "calc (example_structure g kp f) = Some \<lparr>kpts = kp, directives = f\<rparr>" for g kp f
    by (simp add: example_structure_def)
  have u: "(example_structure g kp f)\<lparr>calc := Some \<lparr>kpts = kp', directives = f'\<rparr>\<rparr>
      = example_structure g kp' f'" for g kp kp' f f'
    by (simp add: example_structure_def)
  have f1: "AList.update ''istart'' (PyInt 0) (DoubleRelaxJob_flags2 example_DoubleRelaxJob)
      = DoubleRelaxJob_flags2 example_DoubleRelaxJob @ [(''istart'', PyInt 0)]"
    by (simp add: example_defs eval_defs)
  have f2: "AList.update ''istart'' (PyInt 0) (double_relax_flags2 None False)
      = double_relax_flags2 None False @ [(''istart'', PyInt 0)]"
    by (simp add: example_defs eval_defs)
  have h1: "?run1 = (fst ?run1, fst (snd ?run1), snd (snd ?run1))"
    by (simp add: prod_eq_iff)
  have h2: "?run2 = (fst ?run2, fst (snd ?run2), snd (snd ?run2))"
    by (simp add: prod_eq_iff)
  note rule1 = cross_stage_restart_rule [where env = example_env
        and job = example_DoubleRelaxJob and atoms = example_atoms and w = "()"
        and r = "fst ?run1" and w' = "fst (snd ?run1)" and tr = "snd (snd ?run1)"
        and ?a1.0 = ?a1 and ?a2.0 = ?a2
        and ?c1.0 = "\<lparr>kpts = trivial_grid,
                       directives = DoubleRelaxJob_flags1 example_DoubleRelaxJob\<rparr>"
        and ?c2.0 = "\<lparr>kpts = PyList [PyInt 2, PyInt 2, PyInt 2],
                       directives = DoubleRelaxJob_flags2 example_DoubleRelaxJob\<rparr>"
        and ?b1.0 = ?a1 and ?b2.0 = b, THEN conjunct1]
  note rule2 = cross_stage_restart_rule [where env = example_env
        and atoms = example_atoms and preset = "Some ''QMOFSet''" and swaps = None
        and volume_relax = False and w = "()"
        and rq = "fst ?run2" and w' = "fst (snd ?run2)" and tr = "snd (snd ?run2)"
        and ?a1.0 = ?d1 and ?a2.0 = ?d2
        and ?c1.0 = "\<lparr>kpts = trivial_grid, directives = double_relax_flags1 None False\<rparr>"
        and ?c2.0 = "\<lparr>kpts = PyList [PyInt 2, PyInt 2, PyInt 2],
                       directives = double_relax_flags2 None False\<rparr>"
        and ?b1.0 = ?d1 and ?b2.0 = d, THEN conjunct2]
  have b': "b = example_structure 1 (PyList [PyInt 2, PyInt 2, PyInt 2])
          (DoubleRelaxJob_flags2 example_DoubleRelaxJob @ [(''istart'', PyInt 0)])"
    using rule1 h1 r1 b by (simp add: c k u f1)
  have d': "d = example_structure 1 (PyList [PyInt 2, PyInt 2, PyInt 2])
          (double_relax_flags2 None False @ [(''istart'', PyInt 0)])"
    using rule2 h2 r2 d by (simp add: c k u f2)
  show ?thesis using r1 r2 b d b' d' by simp
qed

section \<open>The recipes of \<^verbatim>\<open>qmof.py\<close>, stage by stage\<close>

lemmas qmof_defs = QMOFMaker_make_def prerelax_def loose_relax_positions_def loose_relax_volume_def
  double_relax_def prerelax_flags_def loose_relax_positions_flags_def loose_relax_volume_flags_def
  double_relax_flags1_def double_relax_flags2_def prerelax_defaults_def
  loose_relax_positions_defaults_def loose_relax_volume_defaults_def double_relax_defaults_def
  example_QMOFMaker_def

lemma run_collapse: "run = (fst run, fst (snd run), snd (snd run))"
  by (simp add: prod_eq_iff)

text \<open>
  Claim C7. In a run of \<^verbatim>\<open>QMOFMaker.make\<close> with \<^verbatim>\<open>volume_relax=False\<close>, the function
  \<^verbatim>\<open>loose_relax_volume\<close> is never entered and at most four solver runs are started; when
  the recipe returns, exactly four have been started: the optimizer run of the
  pre-relaxation, the solver trigger of the loose position relaxation and the two solver
  triggers of the double relaxation, in this order. (A solver run is a call the recipe
  makes: \<^verbatim>\<open>dyn.run\<close> or \<^verbatim>\<open>atoms.get_potential_energy()\<close>.)
\<close>

theorem QMOF_without_volume_relax:
  assumes "QMOFMaker_make env job atoms w = (r, w', tr)" and "\<not> qm_volume_relax job"
  shows "Entered ''loose_relax_volume'' \<notin> set tr
     \<and> solver_invocations tr \<le> 4
     \<and> (\<forall>s. r = Inr s \<longrightarrow> solver_invocations tr = 4 \<and> stage_steps tr =
           [''prerelax'', ''BFGSLineSearch.run'', ''loose_relax_positions'', ''get_potential_energy'',
            ''double_relax'', ''get_potential_energy'', ''get_potential_energy''])"
  using assms
  unfolding QMOFMaker_make_def prerelax_def loose_relax_positions_def double_relax_def
    run_calc_default_def
  by (auto elim!: stepE externE simp: stage_steps_def solver_invocations_def)

theorem QMOF_without_volume_relax_witness:
  "\<not> qm_volume_relax example_QMOFMaker
   \<and> fst (QMOFMaker_make example_env example_QMOFMaker example_atoms ())
       = Inr \<lparr>summary_atoms = Some \<lparr>geometry = 4, calc = None\<rparr>,
              summary_fields = [(''name'', PyStr ''QMOF-Relax'')]\<rparr>
   \<and> Entered ''loose_relax_volume''
       \<notin> set (snd (snd (QMOFMaker_make example_env example_QMOFMaker example_atoms ())))
   \<and> solver_invocations (snd (snd (QMOFMaker_make example_env example_QMOFMaker example_atoms ()))) = 4
   \<and> stage_steps (snd (snd (QMOFMaker_make example_env example_QMOFMaker example_atoms ())))
       = [''prerelax'', ''BFGSLineSearch.run'', ''loose_relax_positions'', ''get_potential_energy'',
          ''double_relax'', ''get_potential_energy'', ''get_potential_energy'']"
proof -
  let ?run = "QMOFMaker_make example_env example_QMOFMaker example_atoms ()"
  have v: "\<not> qm_volume_relax example_QMOFMaker"
    by (simp add: example_QMOFMaker_def)
  have r: "fst ?run = Inr \<lparr>summary_atoms = Some \<lparr>geometry = 4, calc = None\<rparr>,
              summary_fields = [(''name'', PyStr ''QMOF-Relax'')]\<rparr>"
    by (simp add: qmof_defs eval_defs)
  show ?thesis
    using QMOF_without_volume_relax [OF run_collapse [of ?run] v] v r by simp
qed






section \<open>\<^verbatim>\<open>run_calc\<close> copies on call\<close>

lemma load_deepcopy:
  "deepcopy r s = (r', s1) \<Longrightarrow> load s1 r' = load s r \<and> r' = next_ref s
     \<and> (atoms_calc s1 r' = None \<longleftrightarrow> atoms_calc s r = None)
     \<and> (\<forall>c. atoms_calc s1 r' = Some c \<longrightarrow> c = Suc (next_ref s))"
  by (auto simp: deepcopy_def load_def Let_def split: option.splits)

lemma deepcopy_frame:
  "deepcopy r s = (r', s1) \<Longrightarrow> a < next_ref s \<Longrightarrow>
     atoms_geometry s1 a = atoms_geometry s a \<and> atoms_calc s1 a = atoms_calc s a
     \<and> calculators s1 a = calculators s a"
  by (auto simp: deepcopy_def Let_def split: option.splits)

lemma store_back_frame:
  "a \<noteq> r \<Longrightarrow> a \<noteq> c \<Longrightarrow>
     atoms_geometry (store_back r c v s) a = atoms_geometry s a
     \<and> atoms_calc (store_back r c v s) a = atoms_calc s a
     \<and> calculators (store_back r c v s) a = calculators s a"
  by (auto simp: store_back_def split: option.splits)

lemma load_store_back:
  "atoms_calc s r = Some c \<Longrightarrow> load (store_back r c v s) r = v"
  by (auto simp: store_back_def load_def split: option.splits)

lemma run_calc_ref_frame:
  assumes "run_calc_ref env atoms scratch_dir gzip copy_from_store_dir s w = (res, s', w', t)"
    and "a < next_ref s"
  shows "atoms_geometry s' a = atoms_geometry s a \<and> atoms_calc s' a = atoms_calc s a
     \<and> calculators s' a = calculators s a"
proof -
  obtain r' s1 where d: "deepcopy atoms s = (r', s1)" by (cases "deepcopy atoms s")
  note l = load_deepcopy [OF d] and f = deepcopy_frame [OF d assms(2)]
  show ?thesis
    using assms l f
    by (auto simp: run_calc_ref_def d store_back_frame split: option.splits prod.splits sum.splits)
qed

lemma run_calc_ref_value:
  assumes "run_calc_ref env atoms scratch_dir gzip copy_from_store_dir s w = (res, s', w', t)"
  shows "run_calc env (load s atoms) scratch_dir gzip copy_from_store_dir w
           = (map_sum id (load s') res, w', t)"
    and "\<forall>r. res = Inr r \<longrightarrow> r = next_ref s \<and> (\<forall>c. atoms_calc s' r = Some c \<longrightarrow> c = Suc (next_ref s))"
proof -
  obtain r' s1 where d: "deepcopy atoms s = (r', s1)" by (cases "deepcopy atoms s")
  note l = load_deepcopy [OF d]
  show "run_calc env (load s atoms) scratch_dir gzip copy_from_store_dir w
           = (map_sum id (load s') res, w', t)"
    using assms l
    by (auto simp: run_calc_ref_def run_calc_def raise_io_def d load_store_back
        split: option.splits prod.splits sum.splits)
       (auto simp: load_def)
  show "\<forall>r. res = Inr r \<longrightarrow> r = next_ref s \<and> (\<forall>c. atoms_calc s' r = Some c \<longrightarrow> c = Suc (next_ref s))"
    using assms l
    by (auto simp: run_calc_ref_def d store_back_def
        split: option.splits prod.splits sum.splits)
qed

text \<open>
  Claim C5. \<^verbatim>\<open>run_calc\<close> leaves the caller's structure as it was, calculator included,
  and every other object that existed before the call as well, whether it returns or
  raises. The reference it returns is new, and so is the reference to the calculator of
  the returned structure; the returned structure holds what the solver trigger made of
  the copy of the caller's structure. Outcome, world and events are those of \<^verbatim>\<open>run_calc\<close>
  on structures as values.
\<close>

theorem run_calc_copy_on_call:
  assumes "run_calc_ref env atoms scratch_dir gzip copy_from_store_dir s w = (res, s', w', t)"
    and "atoms < next_ref s"
    and "\<forall>c. atoms_calc s atoms = Some c \<longrightarrow> c < next_ref s"
  shows "load s' atoms = load s atoms
     \<and> (\<forall>a. a < next_ref s \<longrightarrow>
           atoms_geometry s' a = atoms_geometry s a \<and> atoms_calc s' a = atoms_calc s a
         \<and> calculators s' a = calculators s a)
     \<and> run_calc env (load s atoms) scratch_dir gzip copy_from_store_dir w
           = (map_sum id (load s') res, w', t)
     \<and> (\<forall>r. res = Inr r \<longrightarrow>
           next_ref s \<le> r \<and> r \<noteq> atoms
         \<and> (\<forall>c. atoms_calc s' r = Some c \<longrightarrow> next_ref s \<le> c \<and> atoms_calc s atoms \<noteq> Some c)
         \<and> Solver_triggered (load s atoms) (Inr (load s' r)) \<in> set t)"
proof -
  note frame = run_calc_ref_frame [OF assms(1)]
  note val = run_calc_ref_value [OF assms(1)]
  have same: "load s' atoms = load s atoms"
  proof (cases "atoms_calc s atoms")
    case None
    with frame [OF assms(2)] show ?thesis by (simp add: load_def)
  next
    case (Some c)
    with assms(3) have "c < next_ref s" by simp
    from frame [OF this] frame [OF assms(2)] Some show ?thesis by (simp add: load_def)
  qed
  have fresh: "next_ref s \<le> r \<and> r \<noteq> atoms
         \<and> (\<forall>c. atoms_calc s' r = Some c \<longrightarrow> next_ref s \<le> c \<and> atoms_calc s atoms \<noteq> Some c)
         \<and> Solver_triggered (load s atoms) (Inr (load s' r)) \<in> set t" if "res = Inr r" for r
  proof -
    from val(2) that have r: "r = next_ref s"
      and c: "\<forall>c. atoms_calc s' r = Some c \<longrightarrow> c = Suc (next_ref s)" by auto
    from val(1) that have "run_calc env (load s atoms) scratch_dir gzip copy_from_store_dir w
        = (Inr (load s' r), w', t)" by simp
    then have "Solver_triggered (load s atoms) (Inr (load s' r)) \<in> set t"
      by (auto elim!: run_calcE)
    with r c assms(2,3) show ?thesis by auto
  qed
  from same frame val(1) fresh show ?thesis by blast
qed

theorem run_calc_copy_on_call_witness:
  "(0::nat) < next_ref example_store
   \<and> atoms_calc example_store 0 = Some 1 \<and> (1::nat) < next_ref example_store
   \<and> fst (run_calc_ref example_env 0 None True False example_store ()) = Inr 2
   \<and> load (fst (snd (run_calc_ref example_env 0 None True False example_store ()))) 0
       = load example_store 0
   \<and> load example_store 0 = \<lparr>geometry = 0, calc = Some \<lparr>kpts = trivial_grid, directives = []\<rparr>\<rparr>
   \<and> load (fst (snd (run_calc_ref example_env 0 None True False example_store ()))) 2
       = \<lparr>geometry = 1, calc = Some \<lparr>kpts = trivial_grid, directives = []\<rparr>\<rparr>"
proof -
  let ?run = "run_calc_ref example_env 0 None True False example_store ()"
  have a: "(0::nat) < next_ref example_store"
    and c: "\<forall>c. atoms_calc example_store 0 = Some c \<longrightarrow> c < next_ref example_store"
    by (simp_all add: example_store_def)
  have c': "atoms_calc example_store 0 = Some 1 \<and> (1::nat) < next_ref example_store"
    by (simp add: example_store_def)
  have h: "?run = (fst ?run, fst (snd ?run), fst (snd (snd ?run)), snd (snd (snd ?run)))"
    by (simp add: prod_eq_iff)
  have r: "fst ?run = Inr 2"
    by (simp add: run_calc_ref_def deepcopy_def example_store_def load_def eval_defs)
  have v: "load example_store 0 = \<lparr>geometry = 0, calc = Some \<lparr>kpts = trivial_grid, directives = []\<rparr>\<rparr>"
    by (simp add: example_store_def load_def)
  have n: "load (fst (snd ?run)) 2 = \<lparr>geometry = 1, calc = Some \<lparr>kpts = trivial_grid, directives = []\<rparr>\<rparr>"
    by (simp add: run_calc_ref_def deepcopy_def store_back_def example_store_def load_def eval_defs)
  show ?thesis
    using run_calc_copy_on_call [OF h a c] a c' r v n by simp
qed

end
